theory Spec2Isabelle
  imports Main "HOL-Library.Word"
begin

section \<open>Data model\<close>

type_synonym byte = "8 word"

text \<open>
  Modelled from the spec: the wire tensor (\<^verbatim>\<open>runtime_pb2.Tensor\<close>, generated from a
  protocol file that is not among the sources). The spec gives its shape as
  \<^verbatim>\<open>{dtype, shape (ordered dims), compression-mode, payload bytes}\<close>.
\<close>

record Tensor =
  dtype :: string
  shape :: "nat list"
  compression_mode :: nat
  payload :: "byte list"

text \<open>
  Modelled from the spec: the frames. A request frame is \<^verbatim>\<open>{uid, tensors}\<close>, the request
  of \<^verbatim>\<open>info\<close> carries the uid alone, a response frame is \<^verbatim>\<open>{tensors}\<close> and the
  response of \<^verbatim>\<open>info\<close> is an opaque serialized blob.
\<close>

record ExpertUID =
  uid :: string

record ExpertRequest = ExpertUID +
  tensors :: "Tensor list"

datatype ExpertResponse = ExpertResponse "Tensor list"


text \<open>
  The exceptions that the handler's own code raises: a failed dictionary lookup
  \<^verbatim>\<open>self.experts[key]\<close> (the spec's \<^verbatim>\<open>UnknownUnit\<close>) and the failed \<^verbatim>\<open>assert\<close> of the
  request unpacker (the spec's \<^verbatim>\<open>ProtocolViolation\<close>). The key of a lookup is a uid or
  Python's \<^verbatim>\<open>None\<close>. The third is what the codec raises on a wire tensor that it cannot
  decode (the spec's \<^verbatim>\<open>CodecError\<close>); the handler does not catch it.
\<close>

datatype error = KeyError "string option" | AssertionError string | CodecError string

text \<open>
  Modelled from the spec: a schema is an ordered, possibly nested collection of
  per-position descriptors (the source's type is
  \<^verbatim>\<open>Union[BatchTensorDescriptor, Tuple[BatchTensorDescriptor, ...]]\<close>); of a descriptor the
  handler reads the compression policy only. \<^verbatim>\<open>nested_flatten\<close> lists the descriptors of
  a schema in order.
\<close>

record BatchTensorDescriptor =
  descr_shape :: "nat list"
  descr_dtype :: string
  compression :: nat

datatype schema = Descr BatchTensorDescriptor | Tuple "schema list"

fun nested_flatten :: "schema \<Rightarrow> BatchTensorDescriptor list" where
  "nested_flatten (Descr d) = [d]"
| "nested_flatten (Tuple ss) = concat (map nested_flatten ss)"

text \<open>
  Modelled from the spec: the worker queue (\<^verbatim>\<open>TaskPool\<close>) accepts an input tuple and
  returns (a future of) an output tuple. A queue is an object with an identity
  (\<open>pool_name\<close>) and the computation it runs (\<open>process_func\<close>); what has been submitted
  is the state of the system, a log of (queue, input tuple) in order of submission.
  The tensors themselves (\<^verbatim>\<open>torch.Tensor\<close>) are a type parameter \<open>'t\<close>.
\<close>

record 't TaskPool =
  pool_name :: string
  process_func :: "'t list \<Rightarrow> 't list"

type_synonym 't submissions = "(string \<times> 't list) list"

definition submit_task :: "'t TaskPool \<Rightarrow> 't list \<Rightarrow> 't submissions \<Rightarrow> 't list \<times> 't submissions" where
  "submit_task pool args log = (process_func pool args, log @ [(pool_name pool, args)])"

text \<open>
  A compute unit (\<^verbatim>\<open>ExpertBackend\<close>): of it the handler uses \<^verbatim>\<open>get_info()\<close>, the two
  queues and the two schemas.
\<close>

record ('t, 'i) ExpertBackend =
  get_info :: 'i
  forward_pool :: "'t TaskPool"
  backward_pool :: "'t TaskPool"
  outputs_schema :: schema
  grad_inputs_schema :: schema

text \<open>
  What the handler imports and only calls: the tensor codec, the metadata serializer and
  the transport's maximum message size. They are parameters of the model. Here the codec
  returns on every wire tensor; the procedures under a codec that may raise come in a
  section of their own below.
\<close>

record ('t, 'i) externals =
  serialize_torch_tensor :: "'t \<Rightarrow> nat \<Rightarrow> Tensor"
  deserialize_torch_tensor :: "Tensor \<Rightarrow> 't"
  MSGPackSerializer_dumps :: "'i \<Rightarrow> byte list"
  DEFAULT_MAX_MSG_SIZE :: nat

section \<open>The unary procedures\<close>

text \<open>
  \<^verbatim>\<open>self.experts[key]\<close>: the registry is a \<^verbatim>\<open>Dict[str, ExpertBackend]\<close>, so \<^verbatim>\<open>None\<close> is never
  one of its keys.
\<close>

definition getitem :: "(string \<rightharpoonup> 'v) \<Rightarrow> string option \<Rightarrow> error + 'v" where
  "getitem experts key =
     (case key of
        None \<Rightarrow> Inl (KeyError None)
      | Some u \<Rightarrow> (case experts u of None \<Rightarrow> Inl (KeyError (Some u)) | Some v \<Rightarrow> Inr v))"


definition process_inputs ::
  "('t, 'i) externals \<Rightarrow> 't list \<Rightarrow> 't TaskPool \<Rightarrow> schema \<Rightarrow> 't submissions
     \<Rightarrow> Tensor list \<times> 't submissions" where
  "process_inputs ext inputs pool sch log =
     (case submit_task pool inputs log of
        (outputs, log') \<Rightarrow>
          (map (\<lambda>(t, p). serialize_torch_tensor ext t (compression p))
             (zip outputs (nested_flatten sch)), log'))"

definition rpc_forward ::
  "('t, 'i) externals \<Rightarrow> (string \<rightharpoonup> ('t, 'i) ExpertBackend) \<Rightarrow> ExpertRequest \<Rightarrow> 't submissions
     \<Rightarrow> (error + ExpertResponse) \<times> 't submissions" where
  "rpc_forward ext experts request log =
     (let inputs = map (deserialize_torch_tensor ext) (tensors request) in
      case getitem experts (Some (uid request)) of
        Inl e \<Rightarrow> (Inl e, log)
      | Inr expert \<Rightarrow>
          (case process_inputs ext inputs (forward_pool expert) (outputs_schema expert) log of
             (ts, log') \<Rightarrow> (Inr (ExpertResponse ts), log')))"

definition rpc_backward ::
  "('t, 'i) externals \<Rightarrow> (string \<rightharpoonup> ('t, 'i) ExpertBackend) \<Rightarrow> ExpertRequest \<Rightarrow> 't submissions
     \<Rightarrow> (error + ExpertResponse) \<times> 't submissions" where
  "rpc_backward ext experts request log =
     (let inputs_and_grads = map (deserialize_torch_tensor ext) (tensors request) in
      case getitem experts (Some (uid request)) of
        Inl e \<Rightarrow> (Inl e, log)
      | Inr expert \<Rightarrow>
          (case process_inputs ext inputs_and_grads (backward_pool expert)
                  (grad_inputs_schema expert) log of
             (ts, log') \<Rightarrow> (Inr (ExpertResponse ts), log')))"

section \<open>Streamed input: the request unpacker and input gathering\<close>

text \<open>
  \<^verbatim>\<open>_RequestUnpacker\<close> has the single slot \<^verbatim>\<open>uid\<close>, \<^verbatim>\<open>None\<close> until the first frame is seen.
  Calling it on a frame claims the frame's uid or asserts that the frame carries the
  claimed one, and returns the frame's tensors.
\<close>

type_synonym RequestUnpacker = "string option"

definition RequestUnpacker_init :: RequestUnpacker where
  "RequestUnpacker_init = None"

definition RequestUnpacker_call ::
  "RequestUnpacker \<Rightarrow> ExpertRequest \<Rightarrow> error + RequestUnpacker \<times> Tensor list" where
  "RequestUnpacker_call self request =
     (case self of
        None \<Rightarrow> Inr (Some (uid request), tensors request)
      | Some claimed \<Rightarrow>
          if claimed = uid request then Inr (self, tensors request)
          else Inl (AssertionError ''Expert uids differ in one request''))"

text \<open>
  Modelled from the spec: \<^verbatim>\<open>gather_from_rpc\<close> (of \<^verbatim>\<open>hivemind.utils.grpc\<close>, not among the
  sources). The spec: it consumes the frames in arrival order, accumulates the tensors
  of every frame, in frame order, into one flat ordered sequence, then deserializes each
  into a tensor. The frames of one call are a finite list; \<open>key\<close> is the stateful
  callable applied to each frame and \<open>s\<close> its state.
\<close>

fun gather_parts ::
  "('s \<Rightarrow> 'm \<Rightarrow> error + 's \<times> Tensor list) \<Rightarrow> 's \<Rightarrow> Tensor list \<Rightarrow> 'm list
     \<Rightarrow> error + 's \<times> Tensor list" where
  "gather_parts key s parts [] = Inr (s, parts)"
| "gather_parts key s parts (msg # stream) =
     (case key s msg of
        Inl e \<Rightarrow> Inl e
      | Inr (s', parts') \<Rightarrow> gather_parts key s' (parts @ parts') stream)"

definition gather_from_rpc ::
  "'m list \<Rightarrow> ('s \<Rightarrow> 'm \<Rightarrow> error + 's \<times> Tensor list) \<Rightarrow> 's \<Rightarrow> (Tensor \<Rightarrow> 't)
     \<Rightarrow> error + 's \<times> 't list" where
  "gather_from_rpc stream key s deserializer =
     (case gather_parts key s [] stream of
        Inl e \<Rightarrow> Inl e
      | Inr (s', parts) \<Rightarrow> Inr (s', map deserializer parts))"

definition gather_inputs ::
  "('t, 'i) externals \<Rightarrow> ExpertRequest list \<Rightarrow> error + string option \<times> 't list" where
  "gather_inputs ext requests =
     (case gather_from_rpc requests RequestUnpacker_call RequestUnpacker_init
             (deserialize_torch_tensor ext) of
        Inl e \<Rightarrow> Inl e
      | Inr (unpacker, inputs) \<Rightarrow> Inr (unpacker, inputs))"

section \<open>Streamed output: splitting and the response sequence\<close>

text \<open>
  Modelled from the spec: \<^verbatim>\<open>split_for_streaming\<close> and its inverse (of
  \<^verbatim>\<open>hivemind.utils.grpc\<close>, not among the sources). The spec: the codec splits one
  serialized message into an ordered sequence of size-bounded fragments, for any positive
  size cap, and can reassemble a fragment sequence into one message. A fragment is a wire
  tensor: the first one carries the description of the tensor and its first bytes, the
  following ones the following bytes, so that a tensor with an empty payload is still one
  fragment. The spec says nothing of a cap of zero.
\<close>

function chunks :: "nat \<Rightarrow> 'a list \<Rightarrow> 'a list list" where
  "chunks n xs = (if n = 0 \<or> xs = [] then [] else take n xs # chunks n (drop n xs))"
  by pat_completeness auto
termination
  by (relation "measure (\<lambda>(n, xs). length xs)") auto

declare chunks.simps [simp del]

definition continuation :: "byte list \<Rightarrow> Tensor" where
  "continuation bs = \<lparr>dtype = [], shape = [], compression_mode = 0, payload = bs\<rparr>"

definition split_for_streaming :: "Tensor \<Rightarrow> nat \<Rightarrow> Tensor list" where
  "split_for_streaming serialized_tensor chunk_size_bytes =
     serialized_tensor\<lparr>payload := take chunk_size_bytes (payload serialized_tensor)\<rparr>
       # map continuation (chunks chunk_size_bytes (drop chunk_size_bytes (payload serialized_tensor)))"

fun combine_from_streaming :: "Tensor list \<Rightarrow> Tensor option" where
  "combine_from_streaming [] = None"
| "combine_from_streaming (first_chunk # stream) =
     Some (first_chunk\<lparr>payload := concat (map payload (first_chunk # stream))\<rparr>)"

text \<open>
  Both streamed procedures compute the list \<^verbatim>\<open>output_split\<close> first: gather the inputs,
  look the unit up under the gathered uid, process the inputs, split every serialized
  output under \<^verbatim>\<open>DEFAULT_MAX_MSG_SIZE // 2\<close>.
\<close>

definition forward_output_split ::
  "('t, 'i) externals \<Rightarrow> (string \<rightharpoonup> ('t, 'i) ExpertBackend) \<Rightarrow> ExpertRequest list \<Rightarrow> 't submissions
     \<Rightarrow> (error + Tensor list) \<times> 't submissions" where
  "forward_output_split ext experts requests log =
     (case gather_inputs ext requests of
        Inl e \<Rightarrow> (Inl e, log)
      | Inr (uid', inputs) \<Rightarrow>
          (case getitem experts uid' of
             Inl e \<Rightarrow> (Inl e, log)
           | Inr expert \<Rightarrow>
               (case process_inputs ext inputs (forward_pool expert) (outputs_schema expert) log of
                  (ts, log') \<Rightarrow>
                    (Inr (concat (map (\<lambda>t. split_for_streaming t (DEFAULT_MAX_MSG_SIZE ext div 2)) ts)),
                     log'))))"

definition backward_output_split ::
  "('t, 'i) externals \<Rightarrow> (string \<rightharpoonup> ('t, 'i) ExpertBackend) \<Rightarrow> ExpertRequest list \<Rightarrow> 't submissions
     \<Rightarrow> (error + Tensor list) \<times> 't submissions" where
  "backward_output_split ext experts requests log =
     (case gather_inputs ext requests of
        Inl e \<Rightarrow> (Inl e, log)
      | Inr (uid', inputs_and_grads) \<Rightarrow>
          (case getitem experts uid' of
             Inl e \<Rightarrow> (Inl e, log)
           | Inr expert \<Rightarrow>
               (case process_inputs ext inputs_and_grads (backward_pool expert)
                       (grad_inputs_schema expert) log of
                  (ts, log') \<Rightarrow>
                    (Inr (concat (map (\<lambda>t. split_for_streaming t (DEFAULT_MAX_MSG_SIZE ext div 2)) ts)),
                     log'))))"

text \<open>
  The response of a streamed procedure as its consumer receives it when it reads the
  sequence to its end: one frame for each part of \<^verbatim>\<open>output_split\<close>, or the exception.
\<close>

definition rpc_forward_stream ::
  "('t, 'i) externals \<Rightarrow> (string \<rightharpoonup> ('t, 'i) ExpertBackend) \<Rightarrow> ExpertRequest list \<Rightarrow> 't submissions
     \<Rightarrow> (error + ExpertResponse list) \<times> 't submissions" where
  "rpc_forward_stream ext experts requests log =
     (case forward_output_split ext experts requests log of
        (Inl e, log') \<Rightarrow> (Inl e, log')
      | (Inr output_split, log') \<Rightarrow> (Inr (map (\<lambda>part. ExpertResponse [part]) output_split), log'))"

definition rpc_backward_stream ::
  "('t, 'i) externals \<Rightarrow> (string \<rightharpoonup> ('t, 'i) ExpertBackend) \<Rightarrow> ExpertRequest list \<Rightarrow> 't submissions
     \<Rightarrow> (error + ExpertResponse list) \<times> 't submissions" where
  "rpc_backward_stream ext experts requests log =
     (case backward_output_split ext experts requests log of
        (Inl e, log') \<Rightarrow> (Inl e, log')
      | (Inr output_split, log') \<Rightarrow> (Inr (map (\<lambda>part. ExpertResponse [part]) output_split), log'))"

text \<open>
  The response sequence itself is an async generator. Calling the procedure runs nothing
  of its body (\<open>Created\<close>); the first \<^verbatim>\<open>__anext__\<close> runs the body down to the first
  \<^verbatim>\<open>yield\<close>, that is, it computes the list \<^verbatim>\<open>output_split\<close> and enters the loop over it; the
  generator is then suspended in the loop holding the parts not yet yielded
  (\<open>Suspended\<close>) until the loop ends or the body raises (\<open>Closed\<close>).
\<close>

datatype generator = Created "ExpertRequest list" | Suspended "Tensor list" | Closed

datatype step = Yield ExpertResponse | Raise error | StopAsyncIteration

fun resume :: "Tensor list \<Rightarrow> step \<times> generator" where
  "resume [] = (StopAsyncIteration, Closed)"
| "resume (part # rest) = (Yield (ExpertResponse [part]), Suspended rest)"

definition stream_anext ::
  "(ExpertRequest list \<Rightarrow> 't submissions \<Rightarrow> (error + Tensor list) \<times> 't submissions)
     \<Rightarrow> generator \<Rightarrow> 't submissions \<Rightarrow> step \<times> generator \<times> 't submissions" where
  "stream_anext body g log =
     (case g of
        Created requests \<Rightarrow>
          (case body requests log of
             (Inl e, log') \<Rightarrow> (Raise e, Closed, log')
           | (Inr output_split, log') \<Rightarrow>
               (case resume output_split of (st, g') \<Rightarrow> (st, g', log')))
      | Suspended parts \<Rightarrow> (case resume parts of (st, g') \<Rightarrow> (st, g', log))
      | Closed \<Rightarrow> (StopAsyncIteration, Closed, log))"

definition rpc_forward_stream_anext ::
  "('t, 'i) externals \<Rightarrow> (string \<rightharpoonup> ('t, 'i) ExpertBackend) \<Rightarrow> generator \<Rightarrow> 't submissions
     \<Rightarrow> step \<times> generator \<times> 't submissions" where
  "rpc_forward_stream_anext ext experts = stream_anext (forward_output_split ext experts)"

definition rpc_backward_stream_anext ::
  "('t, 'i) externals \<Rightarrow> (string \<rightharpoonup> ('t, 'i) ExpertBackend) \<Rightarrow> generator \<Rightarrow> 't submissions
     \<Rightarrow> step \<times> generator \<times> 't submissions" where
  "rpc_backward_stream_anext ext experts = stream_anext (backward_output_split ext experts)"

text \<open>A consumer that calls \<^verbatim>\<open>__anext__\<close> \<open>n\<close> times in a row.\<close>

fun consume ::
  "(generator \<Rightarrow> 't submissions \<Rightarrow> step \<times> generator \<times> 't submissions)
     \<Rightarrow> nat \<Rightarrow> generator \<Rightarrow> 't submissions \<Rightarrow> step list \<times> generator \<times> 't submissions" where
  "consume anext 0 g log = ([], g, log)"
| "consume anext (Suc n) g log =
     (case anext g log of
        (st, g', log') \<Rightarrow>
          (case consume anext n g' log' of (sts, g'', log'') \<Rightarrow> (st # sts, g'', log'')))"

text \<open>The parts that a generator has computed and not yet yielded.\<close>

definition pending :: "generator \<Rightarrow> Tensor list" where
  "pending g = (case g of Suspended parts \<Rightarrow> parts | _ \<Rightarrow> [])"

text \<open>
  The view of the backward pair that the spec takes: a unit seen from its backward side
  has its backward queue as the queue and its gradient-input schema as the schema.
\<close>

definition backward_side :: "('t, 'i) ExpertBackend \<Rightarrow> ('t, 'i) ExpertBackend" where
  "backward_side expert =
     expert\<lparr>forward_pool := backward_pool expert, outputs_schema := grad_inputs_schema expert\<rparr>"

section \<open>The handler process\<close>

text \<open>
  \<^verbatim>\<open>run\<close> calls into the transport and awaits; what such a call does is its outcome: it
  returns, it raises an \<^verbatim>\<open>Exception\<close>, the process is interrupted while it waits
  (\<^verbatim>\<open>KeyboardInterrupt\<close>, which \<^verbatim>\<open>except Exception\<close> does not catch), or it never completes
  (\<^verbatim>\<open>await asyncio.Future()\<close> in a process that is left alone). A run is described by
  the calls it makes on the readiness future and on the transport, in order, and by
  whether it returns.
\<close>

datatype 'e outcome = Returns | Raises 'e | KeyboardInterrupt | Never

record 'e transport =
  replicate_p2p :: "'e outcome"
  add_p2p_handlers :: "'e outcome"
  wait_forever :: "'e outcome"

datatype 'e event =
    Ready_set_result
  | Ready_set_exception 'e
  | Call_replicate_p2p
  | Call_add_p2p_handlers
  | Await_future
  | Log_debug string

datatype ending = Exits | Blocks

text \<open>The awaits of a \<^verbatim>\<open>try\<close> block, one after the other, up to the first that does not return.\<close>

fun awaits :: "('e event \<times> 'e outcome) list \<Rightarrow> 'e event list \<times> 'e outcome" where
  "awaits [] = ([], Returns)"
| "awaits ((ev, Returns) # rest) = (case awaits rest of (evs, out) \<Rightarrow> (ev # evs, out))"
| "awaits ((ev, out) # rest) = ([ev], out)"

text \<open>The coroutine \<^verbatim>\<open>_run\<close>: the three awaits, and the handler of \<^verbatim>\<open>Exception\<close>.\<close>

definition run_coroutine :: "'e transport \<Rightarrow> 'e event list \<times> 'e outcome" where
  "run_coroutine tr =
     (case awaits [(Call_replicate_p2p, replicate_p2p tr),
                   (Call_add_p2p_handlers, add_p2p_handlers tr),
                   (Await_future, wait_forever tr)] of
        (evs, Raises e) \<Rightarrow> (evs @ [Ready_set_exception e], Returns)
      | (evs, out) \<Rightarrow> (evs, out))"

text \<open>
  \<^verbatim>\<open>run\<close>: \<^verbatim>\<open>self.ready.set_result(None)\<close>, then \<^verbatim>\<open>loop.run_until_complete(_run())\<close> under
  the handler of \<^verbatim>\<open>KeyboardInterrupt\<close>.
\<close>

definition run :: "'e transport \<Rightarrow> 'e event list \<times> ending" where
  "run tr =
     (case run_coroutine tr of
        (evs, KeyboardInterrupt) \<Rightarrow>
          (Ready_set_result # evs @ [Log_debug ''Caught KeyboardInterrupt, shutting down''], Exits)
      | (evs, Never) \<Rightarrow> (Ready_set_result # evs, Blocks)
      | (evs, out) \<Rightarrow> (Ready_set_result # evs, Exits))"

text \<open>The calls of a run that resolve the readiness future.\<close>

fun resolves :: "'e event \<Rightarrow> bool" where
  "resolves Ready_set_result = True"
| "resolves (Ready_set_exception e) = True"
| "resolves ev = False"

section \<open>The procedures under a codec that may raise\<close>

text \<open>
  \<^verbatim>\<open>deserialize_torch_tensor\<close> is not among the sources; the spec says that it rejects a
  malformed or incompatible wire tensor with a \<^verbatim>\<open>CodecError\<close>. The definitions of this
  section are the four tensor procedures once more, with the codec as a parameter
  \<open>decode\<close> that returns a tensor or raises: the list comprehension over the tensors of
  a request stops at the first tensor that raises. In \<^verbatim>\<open>rpc_forward\<close> and \<^verbatim>\<open>rpc_backward\<close>
  the comprehension is the first statement, before the lookup in the registry. The
  definitions of the sections above are these under a codec that always returns.
\<close>

fun deserialize_all :: "(Tensor \<Rightarrow> error + 't) \<Rightarrow> Tensor list \<Rightarrow> error + 't list" where
  "deserialize_all decode [] = Inr []"
| "deserialize_all decode (tensor # rest) =
     (case decode tensor of
        Inl e \<Rightarrow> Inl e
      | Inr t \<Rightarrow>
          (case deserialize_all decode rest of Inl e \<Rightarrow> Inl e | Inr ts \<Rightarrow> Inr (t # ts)))"

definition rpc_forward_decoding ::
  "(Tensor \<Rightarrow> error + 't) \<Rightarrow> ('t, 'i) externals \<Rightarrow> (string \<rightharpoonup> ('t, 'i) ExpertBackend)
     \<Rightarrow> ExpertRequest \<Rightarrow> 't submissions \<Rightarrow> (error + ExpertResponse) \<times> 't submissions" where
  "rpc_forward_decoding decode ext experts request log =
     (case deserialize_all decode (tensors request) of
        Inl e \<Rightarrow> (Inl e, log)
      | Inr inputs \<Rightarrow>
          (case getitem experts (Some (uid request)) of
             Inl e \<Rightarrow> (Inl e, log)
           | Inr expert \<Rightarrow>
               (case process_inputs ext inputs (forward_pool expert) (outputs_schema expert) log of
                  (ts, log') \<Rightarrow> (Inr (ExpertResponse ts), log'))))"

definition rpc_backward_decoding ::
  "(Tensor \<Rightarrow> error + 't) \<Rightarrow> ('t, 'i) externals \<Rightarrow> (string \<rightharpoonup> ('t, 'i) ExpertBackend)
     \<Rightarrow> ExpertRequest \<Rightarrow> 't submissions \<Rightarrow> (error + ExpertResponse) \<times> 't submissions" where
  "rpc_backward_decoding decode ext experts request log =
     (case deserialize_all decode (tensors request) of
        Inl e \<Rightarrow> (Inl e, log)
      | Inr inputs_and_grads \<Rightarrow>
          (case getitem experts (Some (uid request)) of
             Inl e \<Rightarrow> (Inl e, log)
           | Inr expert \<Rightarrow>
               (case process_inputs ext inputs_and_grads (backward_pool expert)
                       (grad_inputs_schema expert) log of
                  (ts, log') \<Rightarrow> (Inr (ExpertResponse ts), log'))))"

text \<open>
  In the streamed procedures the tensors are deserialized by the gathering of the
  frames (modelled from the spec, as \<open>gather_from_rpc\<close> above: the tensors of all
  frames are accumulated first and deserialized after), and the lookup follows.
\<close>

definition gather_inputs_decoding ::
  "(Tensor \<Rightarrow> error + 't) \<Rightarrow> ExpertRequest list \<Rightarrow> error + string option \<times> 't list" where
  "gather_inputs_decoding decode requests =
     (case gather_parts RequestUnpacker_call RequestUnpacker_init [] requests of
        Inl e \<Rightarrow> Inl e
      | Inr (unpacker, parts) \<Rightarrow>
          (case deserialize_all decode parts of
             Inl e \<Rightarrow> Inl e
           | Inr inputs \<Rightarrow> Inr (unpacker, inputs)))"

definition rpc_forward_stream_decoding ::
  "(Tensor \<Rightarrow> error + 't) \<Rightarrow> ('t, 'i) externals \<Rightarrow> (string \<rightharpoonup> ('t, 'i) ExpertBackend)
     \<Rightarrow> ExpertRequest list \<Rightarrow> 't submissions \<Rightarrow> (error + ExpertResponse list) \<times> 't submissions" where
  "rpc_forward_stream_decoding decode ext experts requests log =
     (case gather_inputs_decoding decode requests of
        Inl e \<Rightarrow> (Inl e, log)
      | Inr (uid', inputs) \<Rightarrow>
          (case getitem experts uid' of
             Inl e \<Rightarrow> (Inl e, log)
           | Inr expert \<Rightarrow>
               (case process_inputs ext inputs (forward_pool expert) (outputs_schema expert) log of
                  (ts, log') \<Rightarrow>
                    (Inr (map (\<lambda>part. ExpertResponse [part])
                       (concat (map (\<lambda>t. split_for_streaming t (DEFAULT_MAX_MSG_SIZE ext div 2)) ts))),
                     log'))))"

definition rpc_backward_stream_decoding ::
  "(Tensor \<Rightarrow> error + 't) \<Rightarrow> ('t, 'i) externals \<Rightarrow> (string \<rightharpoonup> ('t, 'i) ExpertBackend)
     \<Rightarrow> ExpertRequest list \<Rightarrow> 't submissions \<Rightarrow> (error + ExpertResponse list) \<times> 't submissions" where
  "rpc_backward_stream_decoding decode ext experts requests log =
     (case gather_inputs_decoding decode requests of
        Inl e \<Rightarrow> (Inl e, log)
      | Inr (uid', inputs_and_grads) \<Rightarrow>
          (case getitem experts uid' of
             Inl e \<Rightarrow> (Inl e, log)
           | Inr expert \<Rightarrow>
               (case process_inputs ext inputs_and_grads (backward_pool expert)
                       (grad_inputs_schema expert) log of
                  (ts, log') \<Rightarrow>
                    (Inr (map (\<lambda>part. ExpertResponse [part])
                       (concat (map (\<lambda>t. split_for_streaming t (DEFAULT_MAX_MSG_SIZE ext div 2)) ts))),
                     log'))))"





section \<open>A small registry to evaluate on\<close>

text \<open>
  The setting of the spec's end-to-end example: one unit \<open>expert0\<close> whose forward queue
  doubles every input tensor; its backward queue returns its inputs, under a nested schema
  of two descriptors. Tensors are their bytes, the codec copies them, and the maximum
  message size is 4, so that a payload of three bytes already needs two fragments.
\<close>

definition example_ext :: "(byte list, string) externals" where
  "example_ext =
     \<lparr>serialize_torch_tensor =
        (\<lambda>t c. \<lparr>dtype = ''uint8'', shape = [length t], compression_mode = c, payload = t\<rparr>),
      deserialize_torch_tensor = payload,
      MSGPackSerializer_dumps = map (\<lambda>c. of_nat (of_char c)),
      DEFAULT_MAX_MSG_SIZE = 4\<rparr>"

definition example_descr :: "nat \<Rightarrow> BatchTensorDescriptor" where
  "example_descr c = \<lparr>descr_shape = [3], descr_dtype = ''uint8'', compression = c\<rparr>"

definition expert0 :: "(byte list, string) ExpertBackend" where
  "expert0 =
     \<lparr>get_info = ''doubling'',
      forward_pool = \<lparr>pool_name = ''expert0_forward'', process_func = map (map (\<lambda>b. 2 * b))\<rparr>,
      backward_pool = \<lparr>pool_name = ''expert0_backward'', process_func = (\<lambda>ts. ts)\<rparr>,
      outputs_schema = Descr (example_descr 0),
      grad_inputs_schema = Tuple [Descr (example_descr 1), Tuple [Descr (example_descr 1)]]\<rparr>"

definition example_experts :: "string \<rightharpoonup> (byte list, string) ExpertBackend" where
  "example_experts = [''expert0'' \<mapsto> expert0]"

definition example_tensor :: "byte list \<Rightarrow> Tensor" where
  "example_tensor bs = \<lparr>dtype = ''uint8'', shape = [length bs], compression_mode = 0, payload = bs\<rparr>"


section \<open>Auxiliary facts\<close>

lemma gather_parts_claimed:
  "gather_parts RequestUnpacker_call (Some u) parts rs =
     (if \<forall>r\<in>set rs. uid r = u then Inr (Some u, parts @ concat (map tensors rs))
      else Inl (AssertionError ''Expert uids differ in one request''))"
  by (induction rs arbitrary: parts) (auto simp: RequestUnpacker_call_def)

lemma gather_inputs_Cons:
  "gather_inputs ext (first # rest) =
     (if \<forall>r\<in>set rest. uid r = uid first
      then Inr (Some (uid first), map (deserialize_torch_tensor ext) (concat (map tensors (first # rest))))
      else Inl (AssertionError ''Expert uids differ in one request''))"
  by (simp add: gather_inputs_def gather_from_rpc_def RequestUnpacker_init_def
      RequestUnpacker_call_def gather_parts_claimed)

lemma gather_inputs_Nil: "gather_inputs ext [] = Inr (None, [])"
  by (simp add: gather_inputs_def gather_from_rpc_def RequestUnpacker_init_def)

lemma concat_chunks: "0 < n \<Longrightarrow> concat (chunks n xs) = xs"
proof (induction n xs rule: chunks.induct)
  case (1 n xs)
  show ?case
  proof (cases "xs = []")
    case True
    then show ?thesis by (subst chunks.simps) simp
  next
    case False
    with 1 have "concat (chunks n (drop n xs)) = drop n xs" by simp
    with False 1(2) show ?thesis by (subst chunks.simps) simp
  qed
qed

lemma length_chunks: "c \<in> set (chunks n xs) \<Longrightarrow> length c \<le> n"
proof (induction n xs rule: chunks.induct)
  case (1 n xs)
  from 1(2) have ne: "\<not> (n = 0 \<or> xs = [])"
    by (subst (asm) chunks.simps) (auto split: if_splits)
  with 1(2) have "c = take n xs \<or> c \<in> set (chunks n (drop n xs))"
    by (subst (asm) chunks.simps) simp
  then show ?case
  proof
    assume "c = take n xs"
    then show ?thesis by simp
  next
    assume "c \<in> set (chunks n (drop n xs))"
    with 1(1) ne show ?thesis by simp
  qed
qed

lemma split_fits:
  "p \<in> set (split_for_streaming t n) \<Longrightarrow> length (payload p) \<le> n"
  by (auto simp: split_for_streaming_def continuation_def dest: length_chunks)

lemma split_concat:
  "0 < n \<Longrightarrow> concat (map payload (split_for_streaming t n)) = payload t"
proof -
  assume n: "0 < n"
  have "map payload (map continuation cs) = cs" for cs
    by (induction cs) (simp_all add: continuation_def)
  then show ?thesis
    using concat_chunks [OF n, of "drop n (payload t)"]
    by (simp add: split_for_streaming_def)
qed

lemma combine_split:
  "0 < n \<Longrightarrow> combine_from_streaming (split_for_streaming t n) = Some t"
proof -
  assume n: "0 < n"
  have "combine_from_streaming (split_for_streaming t n)
          = Some ((t\<lparr>payload := take n (payload t)\<rparr>)\<lparr>payload := concat (map payload (split_for_streaming t n))\<rparr>)"
    by (simp add: split_for_streaming_def)
  also have "\<dots> = Some t" by (simp add: split_concat [OF n])
  finally show ?thesis .
qed

lemma zip_take_min:
  "zip xs ys = zip (take (min (length xs) (length ys)) xs) (take (min (length xs) (length ys)) ys)"
  by (simp add: take_zip [symmetric])

lemma getitem_map_option:
  "getitem (map_option f \<circ> experts) key = map_sum id f (getitem experts key)"
  by (simp add: getitem_def split: option.splits)

lemma anext_Closed: "stream_anext body Closed log = (StopAsyncIteration, Closed, log)"
  by (simp add: stream_anext_def)

lemma anext_Suspended:
  "stream_anext body (Suspended parts) log = (fst (resume parts), snd (resume parts), log)"
  by (simp add: stream_anext_def split: prod.splits)

lemma anext_Created:
  "stream_anext body (Created requests) log =
     (case body requests log of
        (Inl e, log') \<Rightarrow> (Raise e, Closed, log')
      | (Inr output_split, log') \<Rightarrow> (fst (resume output_split), snd (resume output_split), log'))"
  by (simp add: stream_anext_def split: prod.splits sum.splits)

lemma consume_Closed:
  "consume (stream_anext body) n Closed log = (replicate n StopAsyncIteration, Closed, log)"
  by (induction n) (simp_all add: anext_Closed)

lemma consume_Suspended:
  "consume (stream_anext body) n (Suspended parts) log =
     (map (\<lambda>part. Yield (ExpertResponse [part])) (take n parts)
        @ replicate (n - length parts) StopAsyncIteration,
      if n \<le> length parts then Suspended (drop n parts) else Closed, log)"
proof (induction n arbitrary: parts)
  case 0
  show ?case by simp
next
  case (Suc n)
  show ?case
  proof (cases parts)
    case Nil
    then show ?thesis by (simp add: anext_Suspended consume_Closed)
  next
    case (Cons part rest)
    have "stream_anext body (Suspended parts) log
        = (Yield (ExpertResponse [part]), Suspended rest, log)"
      by (simp add: anext_Suspended Cons)
    then show ?thesis by (simp add: Suc.IH Cons)
  qed
qed

lemma consume_Created:
  "consume (stream_anext body) (Suc n) (Created requests) log =
     (case body requests log of
        (Inl e, log') \<Rightarrow> (Raise e # replicate n StopAsyncIteration, Closed, log')
      | (Inr output_split, log') \<Rightarrow>
          (map (\<lambda>part. Yield (ExpertResponse [part])) (take (Suc n) output_split)
             @ replicate (Suc n - length output_split) StopAsyncIteration,
           if Suc n \<le> length output_split then Suspended (drop (Suc n) output_split) else Closed,
           log'))"
proof (cases "body requests log")
  case (Pair r log')
  show ?thesis
  proof (cases r)
    case (Inl e)
    then show ?thesis by (simp add: Pair anext_Created consume_Closed)
  next
    case (Inr output_split)
    show ?thesis
    proof (cases output_split)
      case Nil
      then show ?thesis by (simp add: Pair Inr anext_Created consume_Closed)
    next
      case (Cons part rest)
      have "stream_anext body (Created requests) log
          = (Yield (ExpertResponse [part]), Suspended rest, log')"
        by (simp add: anext_Created Pair Inr Cons)
      then show ?thesis by (simp add: Pair Inr Cons consume_Suspended)
    qed
  qed
qed

lemma run_sets_result_first: "\<exists>evs. fst (run tr) = Ready_set_result # evs"
  by (cases "run_coroutine tr") (auto simp: run_def split: outcome.splits)

lemma deserialize_all_total:
  "deserialize_all (\<lambda>w. Inr (f w)) ts = Inr (map f ts)"
  by (induction ts) simp_all

lemma rpc_forward_decoding_total:
  "rpc_forward_decoding (\<lambda>w. Inr (deserialize_torch_tensor ext w)) ext experts request log
     = rpc_forward ext experts request log"
  by (simp add: rpc_forward_decoding_def rpc_forward_def Let_def deserialize_all_total)

lemma rpc_backward_decoding_total:
  "rpc_backward_decoding (\<lambda>w. Inr (deserialize_torch_tensor ext w)) ext experts request log
     = rpc_backward ext experts request log"
  by (simp add: rpc_backward_decoding_def rpc_backward_def Let_def deserialize_all_total)

lemma gather_inputs_decoding_total:
  "gather_inputs_decoding (\<lambda>w. Inr (deserialize_torch_tensor ext w)) requests
     = gather_inputs ext requests"
  by (simp add: gather_inputs_decoding_def gather_inputs_def gather_from_rpc_def
      deserialize_all_total split: sum.splits)

lemma rpc_forward_stream_decoding_total:
  "rpc_forward_stream_decoding (\<lambda>w. Inr (deserialize_torch_tensor ext w)) ext experts requests log
     = rpc_forward_stream ext experts requests log"
  by (simp add: rpc_forward_stream_decoding_def rpc_forward_stream_def forward_output_split_def
      gather_inputs_decoding_total split: sum.splits prod.splits)

lemma rpc_backward_stream_decoding_total:
  "rpc_backward_stream_decoding (\<lambda>w. Inr (deserialize_torch_tensor ext w)) ext experts requests log
     = rpc_backward_stream ext experts requests log"
  by (simp add: rpc_backward_stream_decoding_def rpc_backward_stream_def backward_output_split_def
      gather_inputs_decoding_total split: sum.splits prod.splits)





section \<open>Verified properties\<close>

text \<open>
  C2. For every registered uid and every request, \<open>rpc_forward\<close> deserializes the wire
  tensors of the request in order, submits them as one input tuple to the forward queue of
  that unit (the log of submissions grows by exactly this one entry), takes the output
  tuple, serializes the outputs position by position with the compression policies of the
  flattened output schema (the pairing is Python's \<^verbatim>\<open>zip\<close>, whose length is C10), and
  returns the serialized outputs as one response frame.
\<close>

theorem rpc_forward_registered:
  assumes "experts (uid request) = Some expert"
  shows "rpc_forward ext experts request log =
     (Inr (ExpertResponse
        (map (\<lambda>(t, p). serialize_torch_tensor ext t (compression p))
           (zip (process_func (forward_pool expert)
                   (map (deserialize_torch_tensor ext) (tensors request)))
                (nested_flatten (outputs_schema expert))))),
      log @ [(pool_name (forward_pool expert),
              map (deserialize_torch_tensor ext) (tensors request))])"
  using assms
  by (simp add: rpc_forward_def Let_def getitem_def process_inputs_def submit_task_def)

theorem rpc_forward_registered_witness:
  "example_experts ''expert0'' = Some expert0 \<and>
   rpc_forward example_ext example_experts
     \<lparr>uid = ''expert0'', tensors = [example_tensor [1, 2, 3]]\<rparr> []
   = (Inr (ExpertResponse [example_tensor [2, 4, 6]]), [(''expert0_forward'', [[1, 2, 3]])])"
proof -
  have h: "example_experts (uid \<lparr>uid = ''expert0'', tensors = [example_tensor [1, 2, 3]]\<rparr>) = Some expert0"
    by (simp add: example_experts_def)
  show ?thesis
    using h rpc_forward_registered [where experts = example_experts and expert = expert0
        and ext = example_ext and log = "[]"
        and request = "\<lparr>uid = ''expert0'', tensors = [example_tensor [1, 2, 3]]\<rparr>"]
    by (simp add: example_experts_def expert0_def example_ext_def example_tensor_def example_descr_def)
qed

text \<open>
  C10. The response of \<open>process_inputs\<close> has as many serialized tensors as the shorter
  of the queue's output tuple and the flattened schema: the pairwise zip drops what is in
  excess on either side, and there is no error.
\<close>

theorem process_inputs_zip_truncates:
  "length (fst (process_inputs ext inputs pool sch log))
     = min (length (process_func pool inputs)) (length (nested_flatten sch))
   \<and> fst (process_inputs ext inputs pool sch log)
     = map (\<lambda>(t, p). serialize_torch_tensor ext t (compression p))
         (zip (take (min (length (process_func pool inputs)) (length (nested_flatten sch)))
                 (process_func pool inputs))
              (take (min (length (process_func pool inputs)) (length (nested_flatten sch)))
                 (nested_flatten sch)))"
proof -
  note z = zip_take_min
  have p: "fst (process_inputs ext inputs pool sch log)
      = map (\<lambda>(t, p). serialize_torch_tensor ext t (compression p))
          (zip (process_func pool inputs) (nested_flatten sch))"
    by (simp add: process_inputs_def submit_task_def)
  have "length (fst (process_inputs ext inputs pool sch log))
      = min (length (process_func pool inputs)) (length (nested_flatten sch))"
    by (simp add: p)
  moreover note p [unfolded z [of "process_func pool inputs" "nested_flatten sch"]]
  ultimately show ?thesis by (rule conjI)
qed

theorem process_inputs_zip_truncates_witness:
  "length (process_func (forward_pool expert0) [[1, 2, 3], [4]]) = 2
   \<and> length (nested_flatten (outputs_schema expert0)) = 1
   \<and> fst (process_inputs example_ext [[1, 2, 3], [4]] (forward_pool expert0)
        (outputs_schema expert0) [])
     = [example_tensor [2, 4, 6]]"
  using process_inputs_zip_truncates [of example_ext "[[1, 2, 3], [4]]" "forward_pool expert0"
      "outputs_schema expert0" "[]"]
  by (simp add: expert0_def example_ext_def example_tensor_def example_descr_def)

text \<open>
  C5. On a frame sequence with at least one frame the unpacker claims the uid of the first
  frame. If a later frame carries another uid, gathering fails with the assertion error
  (the spec's \<^verbatim>\<open>ProtocolViolation\<close>): an error value of this one call, and no uid is
  returned. If all frames agree, gathering returns the claimed uid with the tensors of all
  frames, accumulated in frame order and deserialized.
\<close>

theorem gather_inputs_uid_consistency:
  "RequestUnpacker_call RequestUnpacker_init first = Inr (Some (uid first), tensors first)
   \<and> gather_inputs ext (first # rest) =
     (if \<forall>r\<in>set rest. uid r = uid first
      then Inr (Some (uid first),
                map (deserialize_torch_tensor ext) (concat (map tensors (first # rest))))
      else Inl (AssertionError ''Expert uids differ in one request''))"
  by (simp add: gather_inputs_Cons RequestUnpacker_call_def RequestUnpacker_init_def)

theorem gather_inputs_uid_consistency_witness:
  "gather_inputs example_ext
     [\<lparr>uid = ''expert0'', tensors = []\<rparr>,
      \<lparr>uid = ''expert0'', tensors = [example_tensor [1, 2, 3]]\<rparr>]
     = Inr (Some ''expert0'', [[1, 2, 3]])
   \<and> gather_inputs example_ext
     [\<lparr>uid = ''expert0'', tensors = []\<rparr>,
      \<lparr>uid = ''expert1'', tensors = [example_tensor [1, 2, 3]]\<rparr>]
     = Inl (AssertionError ''Expert uids differ in one request'')"
  using gather_inputs_uid_consistency [of "\<lparr>uid = ''expert0'', tensors = []\<rparr>" example_ext
      "[\<lparr>uid = ''expert0'', tensors = [example_tensor [1, 2, 3]]\<rparr>]"]
    gather_inputs_uid_consistency [of "\<lparr>uid = ''expert0'', tensors = []\<rparr>" example_ext
      "[\<lparr>uid = ''expert1'', tensors = [example_tensor [1, 2, 3]]\<rparr>]"]
  by (simp add: example_ext_def example_tensor_def)

text \<open>
  C9. On the empty frame sequence gathering does not fail: it returns \<^verbatim>\<open>None\<close> as the uid
  and no tensors. The streamed calls then fail at the registry lookup with the key error
  for \<^verbatim>\<open>None\<close>, which is not the assertion error of a protocol violation.
\<close>

theorem empty_stream_is_key_error:
  "gather_inputs ext [] = Inr (None, [])
   \<and> rpc_forward_stream ext experts [] log = (Inl (KeyError None), log)
   \<and> rpc_backward_stream ext experts [] log = (Inl (KeyError None), log)
   \<and> KeyError None \<noteq> AssertionError msg"
  by (simp add: gather_inputs_Nil rpc_forward_stream_def rpc_backward_stream_def
      forward_output_split_def backward_output_split_def getitem_def)




text \<open>
  C7. For a registered uid, \<open>rpc_backward\<close> and \<open>rpc_backward_stream\<close> do what the
  forward pair does, with the unit's backward queue in the place of the forward queue and
  its gradient-input schema in the place of the output schema: one submission of the
  deserialized (for the stream: gathered) inputs to the backward queue, the outputs
  serialized position by position with the flattened gradient-input schema, one response
  frame (for the stream: one frame for each fragment, in order). Nothing else differs:
  the backward procedures are the forward procedures of the registry in which every unit
  is seen from its backward side.
\<close>

theorem backward_targets_backward_queue_and_grad_schema:
  assumes "experts (uid request) = Some expert"
    and "gather_inputs ext requests = Inr (Some (uid request), inputs)"
  shows "rpc_backward ext experts request log =
       (Inr (ExpertResponse
          (map (\<lambda>(t, p). serialize_torch_tensor ext t (compression p))
             (zip (process_func (backward_pool expert)
                     (map (deserialize_torch_tensor ext) (tensors request)))
                  (nested_flatten (grad_inputs_schema expert))))),
        log @ [(pool_name (backward_pool expert),
                map (deserialize_torch_tensor ext) (tensors request))])
     \<and> rpc_backward_stream ext experts requests log =
       (Inr (map (\<lambda>part. ExpertResponse [part])
          (concat (map (\<lambda>t. split_for_streaming t (DEFAULT_MAX_MSG_SIZE ext div 2))
             (map (\<lambda>(t, p). serialize_torch_tensor ext t (compression p))
                (zip (process_func (backward_pool expert) inputs)
                     (nested_flatten (grad_inputs_schema expert))))))),
        log @ [(pool_name (backward_pool expert), inputs)])
     \<and> rpc_backward ext experts request log
       = rpc_forward ext (map_option backward_side \<circ> experts) request log
     \<and> rpc_backward_stream ext experts requests log
       = rpc_forward_stream ext (map_option backward_side \<circ> experts) requests log
     \<and> rpc_backward_stream_anext ext experts g log
       = rpc_forward_stream_anext ext (map_option backward_side \<circ> experts) g log
     \<and> forward_pool (backward_side expert) = backward_pool expert
     \<and> outputs_schema (backward_side expert) = grad_inputs_schema expert"
proof -
  have u: "rpc_backward ext experts request log =
       (Inr (ExpertResponse
          (map (\<lambda>(t, p). serialize_torch_tensor ext t (compression p))
             (zip (process_func (backward_pool expert)
                     (map (deserialize_torch_tensor ext) (tensors request)))
                  (nested_flatten (grad_inputs_schema expert))))),
        log @ [(pool_name (backward_pool expert),
                map (deserialize_torch_tensor ext) (tensors request))])"
    using assms(1)
    by (simp add: rpc_backward_def Let_def getitem_def process_inputs_def submit_task_def)
  have s: "rpc_backward_stream ext experts requests log =
       (Inr (map (\<lambda>part. ExpertResponse [part])
          (concat (map (\<lambda>t. split_for_streaming t (DEFAULT_MAX_MSG_SIZE ext div 2))
             (map (\<lambda>(t, p). serialize_torch_tensor ext t (compression p))
                (zip (process_func (backward_pool expert) inputs)
                     (nested_flatten (grad_inputs_schema expert))))))),
        log @ [(pool_name (backward_pool expert), inputs)])"
    using assms
    by (simp add: rpc_backward_stream_def backward_output_split_def getitem_def
        process_inputs_def submit_task_def)
  have a: "rpc_backward ext experts request log
     = rpc_forward ext (map_option backward_side \<circ> experts) request log"
    by (cases "getitem experts (Some (uid request))")
      (simp_all add: rpc_backward_def rpc_forward_def Let_def getitem_map_option backward_side_def)
  have os: "backward_output_split ext experts requests log
     = forward_output_split ext (map_option backward_side \<circ> experts) requests log"
    for requests log
  proof (cases "gather_inputs ext requests")
    case (Inl e)
    then show ?thesis by (simp add: backward_output_split_def forward_output_split_def)
  next
    case (Inr r)
    obtain k inputs where r: "r = (k, inputs)" by (cases r)
    show ?thesis
      by (cases "getitem experts k")
        (simp_all add: Inr r backward_output_split_def forward_output_split_def
          getitem_map_option backward_side_def)
  qed
  have b: "rpc_backward_stream ext experts requests log
     = rpc_forward_stream ext (map_option backward_side \<circ> experts) requests log"
    by (simp add: rpc_backward_stream_def rpc_forward_stream_def os)
  have "backward_output_split ext experts
     = forward_output_split ext (map_option backward_side \<circ> experts)"
    by (intro ext) (rule os)
  then have c: "rpc_backward_stream_anext ext experts g log
     = rpc_forward_stream_anext ext (map_option backward_side \<circ> experts) g log"
    by (simp add: rpc_backward_stream_anext_def rpc_forward_stream_anext_def)
  have d: "forward_pool (backward_side expert) = backward_pool expert
     \<and> outputs_schema (backward_side expert) = grad_inputs_schema expert"
    by (simp add: backward_side_def)
  from u s a b c d show ?thesis by (intro conjI) simp_all
qed

theorem backward_targets_backward_queue_and_grad_schema_witness:
  "rpc_backward example_ext example_experts
     \<lparr>uid = ''expert0'', tensors = [example_tensor [1, 2, 3], example_tensor [4]]\<rparr> []
   = (Inr (ExpertResponse
        [\<lparr>dtype = ''uint8'', shape = [3], compression_mode = 1, payload = [1, 2, 3]\<rparr>,
         \<lparr>dtype = ''uint8'', shape = [1], compression_mode = 1, payload = [4]\<rparr>]),
      [(''expert0_backward'', [[1, 2, 3], [4]])])
   \<and> rpc_backward_stream example_ext example_experts
     [\<lparr>uid = ''expert0'', tensors = [example_tensor [1, 2, 3]]\<rparr>,
      \<lparr>uid = ''expert0'', tensors = [example_tensor [4]]\<rparr>] []
   = (Inr [ExpertResponse [\<lparr>dtype = ''uint8'', shape = [3], compression_mode = 1, payload = [1, 2]\<rparr>],
           ExpertResponse [continuation [3]],
           ExpertResponse [\<lparr>dtype = ''uint8'', shape = [1], compression_mode = 1, payload = [4]\<rparr>]],
      [(''expert0_backward'', [[1, 2, 3], [4]])])
   \<and> rpc_forward example_ext example_experts
     \<lparr>uid = ''expert0'', tensors = [example_tensor [1, 2, 3], example_tensor [4]]\<rparr> []
   = (Inr (ExpertResponse
        [\<lparr>dtype = ''uint8'', shape = [3], compression_mode = 0, payload = [2, 4, 6]\<rparr>]),
      [(''expert0_forward'', [[1, 2, 3], [4]])])"
proof -
  let ?request = "\<lparr>uid = ''expert0'', tensors = [example_tensor [1, 2, 3], example_tensor [4]]\<rparr>"
  let ?requests = "[\<lparr>uid = ''expert0'', tensors = [example_tensor [1, 2, 3]]\<rparr>,
      \<lparr>uid = ''expert0'', tensors = [example_tensor [4]]\<rparr>]"
  have h1: "example_experts (uid ?request) = Some expert0"
    by (simp add: example_experts_def)
  have h2: "gather_inputs example_ext ?requests = Inr (Some (uid ?request), [[1, 2, 3], [4]])"
    by (simp add: gather_inputs_Cons example_ext_def example_tensor_def)
  have c: "chunks 2 [x :: byte] = [[x]]" for x
    by (simp add: chunks.simps [of 2 "[x]"] chunks.simps [of 2 "[]"])
  have f: "rpc_forward example_ext example_experts ?request []
   = (Inr (ExpertResponse
        [\<lparr>dtype = ''uint8'', shape = [3], compression_mode = 0, payload = [2, 4, 6]\<rparr>]),
      [(''expert0_forward'', [[1, 2, 3], [4]])])"
    by (simp add: rpc_forward_def Let_def getitem_def process_inputs_def submit_task_def
        example_experts_def expert0_def example_ext_def example_tensor_def example_descr_def)
  note t = backward_targets_backward_queue_and_grad_schema [where experts = example_experts
      and request = ?request and expert = expert0 and ext = example_ext and requests = ?requests
      and inputs = "[[1, 2, 3], [4]]" and log = "[]"]
  from t [OF h1 h2] f show ?thesis
    by (simp add: expert0_def example_ext_def example_tensor_def example_descr_def
        split_for_streaming_def c chunks.simps [of 2 "[]"])
qed

text \<open>
  C4. In a streamed response every serialized output tensor is split under the bound
  \<^verbatim>\<open>DEFAULT_MAX_MSG_SIZE // 2\<close> (a maximum message size of at least 2, so that the bound
  is positive): the response is one frame for each fragment, all fragments of output
  tensor 0 first, then all fragments of output tensor 1, and so on; the payload of every
  fragment fits the bound, and the fragments of one tensor concatenate in order to its
  payload and reassemble to the tensor.
\<close>

theorem stream_response_fragments:
  assumes "2 \<le> DEFAULT_MAX_MSG_SIZE ext"
    and "gather_inputs ext requests = Inr (key, inputs)"
    and "getitem experts key = Inr expert"
  shows "rpc_forward_stream ext experts requests log =
       (Inr (map (\<lambda>part. ExpertResponse [part])
          (concat (map (\<lambda>t. split_for_streaming t (DEFAULT_MAX_MSG_SIZE ext div 2))
             (fst (process_inputs ext inputs (forward_pool expert) (outputs_schema expert) log))))),
        snd (process_inputs ext inputs (forward_pool expert) (outputs_schema expert) log))
     \<and> rpc_backward_stream ext experts requests log =
       (Inr (map (\<lambda>part. ExpertResponse [part])
          (concat (map (\<lambda>t. split_for_streaming t (DEFAULT_MAX_MSG_SIZE ext div 2))
             (fst (process_inputs ext inputs (backward_pool expert) (grad_inputs_schema expert) log))))),
        snd (process_inputs ext inputs (backward_pool expert) (grad_inputs_schema expert) log))
     \<and> (\<forall>t. (\<forall>part\<in>set (split_for_streaming t (DEFAULT_MAX_MSG_SIZE ext div 2)).
                length (payload part) \<le> DEFAULT_MAX_MSG_SIZE ext div 2)
            \<and> concat (map payload (split_for_streaming t (DEFAULT_MAX_MSG_SIZE ext div 2))) = payload t
            \<and> combine_from_streaming (split_for_streaming t (DEFAULT_MAX_MSG_SIZE ext div 2)) = Some t)"
proof -
  from assms(1) have cap: "0 < DEFAULT_MAX_MSG_SIZE ext div 2" by simp
  have f: "rpc_forward_stream ext experts requests log =
       (Inr (map (\<lambda>part. ExpertResponse [part])
          (concat (map (\<lambda>t. split_for_streaming t (DEFAULT_MAX_MSG_SIZE ext div 2))
             (fst (process_inputs ext inputs (forward_pool expert) (outputs_schema expert) log))))),
        snd (process_inputs ext inputs (forward_pool expert) (outputs_schema expert) log))"
    using assms(2,3)
    by (simp add: rpc_forward_stream_def forward_output_split_def split: prod.splits)
  have b: "rpc_backward_stream ext experts requests log =
       (Inr (map (\<lambda>part. ExpertResponse [part])
          (concat (map (\<lambda>t. split_for_streaming t (DEFAULT_MAX_MSG_SIZE ext div 2))
             (fst (process_inputs ext inputs (backward_pool expert) (grad_inputs_schema expert) log))))),
        snd (process_inputs ext inputs (backward_pool expert) (grad_inputs_schema expert) log))"
    using assms(2,3)
    by (simp add: rpc_backward_stream_def backward_output_split_def split: prod.splits)
  have s: "(\<forall>part\<in>set (split_for_streaming t (DEFAULT_MAX_MSG_SIZE ext div 2)).
                length (payload part) \<le> DEFAULT_MAX_MSG_SIZE ext div 2)
            \<and> concat (map payload (split_for_streaming t (DEFAULT_MAX_MSG_SIZE ext div 2))) = payload t
            \<and> combine_from_streaming (split_for_streaming t (DEFAULT_MAX_MSG_SIZE ext div 2)) = Some t"
    for t
    using split_fits split_concat [OF cap] combine_split [OF cap] by blast
  from f b s show ?thesis by blast
qed

theorem stream_response_fragments_witness:
  "rpc_forward_stream example_ext example_experts
     [\<lparr>uid = ''expert0'', tensors = [example_tensor [1, 2, 3], example_tensor [4]]\<rparr>] []
   = (Inr [ExpertResponse [\<lparr>dtype = ''uint8'', shape = [3], compression_mode = 0, payload = [2, 4]\<rparr>],
           ExpertResponse [continuation [6]]],
      [(''expert0_forward'', [[1, 2, 3], [4]])])
   \<and> rpc_backward_stream example_ext example_experts
     [\<lparr>uid = ''expert0'', tensors = [example_tensor [1, 2, 3], example_tensor [4]]\<rparr>] []
   = (Inr [ExpertResponse [\<lparr>dtype = ''uint8'', shape = [3], compression_mode = 1, payload = [1, 2]\<rparr>],
           ExpertResponse [continuation [3]],
           ExpertResponse [\<lparr>dtype = ''uint8'', shape = [1], compression_mode = 1, payload = [4]\<rparr>]],
      [(''expert0_backward'', [[1, 2, 3], [4]])])"
proof -
  have h1: "2 \<le> DEFAULT_MAX_MSG_SIZE example_ext"
    by (simp add: example_ext_def)
  have h2: "gather_inputs example_ext
      [\<lparr>uid = ''expert0'', tensors = [example_tensor [1, 2, 3], example_tensor [4]]\<rparr>]
      = Inr (Some ''expert0'', [[1, 2, 3], [4]])"
    by (simp add: gather_inputs_Cons example_ext_def example_tensor_def)
  have h3: "getitem example_experts (Some ''expert0'') = Inr expert0"
    by (simp add: getitem_def example_experts_def)
  have c: "chunks 2 [x :: byte] = [[x]]" for x
    by (simp add: chunks.simps [of 2 "[x]"] chunks.simps [of 2 "[]"])
  show ?thesis
    using stream_response_fragments [OF h1 h2 h3, of "[]"]
    by (simp add: process_inputs_def submit_task_def expert0_def example_ext_def
        example_descr_def split_for_streaming_def c chunks.simps [of 2 "[]"])
qed

text \<open>
  C3, as the code has it. For a registered uid, a streamed forward call of at least one
  frame, whose frames all carry that uid and whose tensor sequences concatenate in frame
  order to the tensors of a unary request with that uid, makes the same single submission
  to the forward queue as the unary call, and its response is, frame by frame, the
  fragments of the serialized outputs of the unary call: the fragments of each output
  reassemble to that output.
\<close>

theorem forward_stream_refines_forward:
  assumes "experts u = Some expert"
    and "requests \<noteq> []"
    and "\<forall>r\<in>set requests. uid r = u"
    and "uid request = u"
    and "concat (map tensors requests) = tensors request"
    and "2 \<le> DEFAULT_MAX_MSG_SIZE ext"
  shows "\<exists>outs.
       rpc_forward ext experts request log =
         (Inr (ExpertResponse outs),
          log @ [(pool_name (forward_pool expert),
                  map (deserialize_torch_tensor ext) (tensors request))])
     \<and> rpc_forward_stream ext experts requests log =
         (Inr (map (\<lambda>part. ExpertResponse [part])
            (concat (map (\<lambda>t. split_for_streaming t (DEFAULT_MAX_MSG_SIZE ext div 2)) outs))),
          log @ [(pool_name (forward_pool expert),
                  map (deserialize_torch_tensor ext) (tensors request))])
     \<and> map (\<lambda>t. combine_from_streaming (split_for_streaming t (DEFAULT_MAX_MSG_SIZE ext div 2))) outs
         = map Some outs"
proof -
  from assms(6) have cap: "0 < DEFAULT_MAX_MSG_SIZE ext div 2" by simp
  from assms(2) obtain first rest where rq: "requests = first # rest"
    by (cases requests) auto
  with assms(3) have "uid first = u" and "\<forall>r\<in>set rest. uid r = uid first" by auto
  then have g: "gather_inputs ext requests
      = Inr (Some u, map (deserialize_torch_tensor ext) (tensors request))"
    using assms(5) by (simp add: rq gather_inputs_Cons)
  have l: "getitem experts (Some u) = Inr expert"
    using assms(1) by (simp add: getitem_def)
  let ?outs = "map (\<lambda>(t, p). serialize_torch_tensor ext t (compression p))
      (zip (process_func (forward_pool expert) (map (deserialize_torch_tensor ext) (tensors request)))
           (nested_flatten (outputs_schema expert)))"
  have p: "process_inputs ext (map (deserialize_torch_tensor ext) (tensors request))
      (forward_pool expert) (outputs_schema expert) log
    = (?outs, log @ [(pool_name (forward_pool expert),
                  map (deserialize_torch_tensor ext) (tensors request))])"
    by (simp add: process_inputs_def submit_task_def)
  have 1: "rpc_forward ext experts request log =
         (Inr (ExpertResponse ?outs),
          log @ [(pool_name (forward_pool expert),
                  map (deserialize_torch_tensor ext) (tensors request))])"
    using l assms(4) by (simp add: rpc_forward_def Let_def p)
  have 2: "rpc_forward_stream ext experts requests log =
         (Inr (map (\<lambda>part. ExpertResponse [part])
            (concat (map (\<lambda>t. split_for_streaming t (DEFAULT_MAX_MSG_SIZE ext div 2)) ?outs))),
          log @ [(pool_name (forward_pool expert),
                  map (deserialize_torch_tensor ext) (tensors request))])"
    by (simp add: rpc_forward_stream_def forward_output_split_def g l p)
  have 3: "map (\<lambda>t. combine_from_streaming (split_for_streaming t (DEFAULT_MAX_MSG_SIZE ext div 2))) ?outs
         = map Some ?outs"
    by (simp add: combine_split [OF cap])
  from 1 2 3 show ?thesis by blast
qed


theorem forward_stream_refines_forward_witness:
  "rpc_forward example_ext example_experts
     \<lparr>uid = ''expert0'', tensors = [example_tensor [1, 2, 3]]\<rparr> []
   = (Inr (ExpertResponse [example_tensor [2, 4, 6]]), [(''expert0_forward'', [[1, 2, 3]])])
   \<and> rpc_forward_stream example_ext example_experts
     [\<lparr>uid = ''expert0'', tensors = []\<rparr>,
      \<lparr>uid = ''expert0'', tensors = [example_tensor [1, 2, 3]]\<rparr>] []
   = (Inr [ExpertResponse [(example_tensor [2, 4, 6])\<lparr>payload := [2, 4]\<rparr>],
           ExpertResponse [continuation [6]]],
      [(''expert0_forward'', [[1, 2, 3]])])
   \<and> combine_from_streaming [(example_tensor [2, 4, 6])\<lparr>payload := [2, 4]\<rparr>, continuation [6]]
     = Some (example_tensor [2, 4, 6])"
proof -
  let ?request = "\<lparr>uid = ''expert0'', tensors = [example_tensor [1, 2, 3]]\<rparr>"
  let ?requests = "[\<lparr>uid = ''expert0'', tensors = []\<rparr>, ?request]"
  have h1: "example_experts ''expert0'' = Some expert0"
    by (simp add: example_experts_def)
  have h2: "?requests \<noteq> []" by simp
  have h3: "\<forall>r\<in>set ?requests. uid r = ''expert0''" by simp
  have h4: "uid ?request = ''expert0''" by simp
  have h5: "concat (map tensors ?requests) = tensors ?request" by simp
  have h6: "2 \<le> DEFAULT_MAX_MSG_SIZE example_ext" by (simp add: example_ext_def)
  note t = forward_stream_refines_forward [where experts = example_experts and u = "''expert0''"
      and expert = expert0 and requests = ?requests and request = ?request
      and ext = example_ext and log = "[]"]
  from t [OF h1 h2 h3 h4 h5 h6]
  obtain outs where
    u: "rpc_forward example_ext example_experts ?request []
        = (Inr (ExpertResponse outs),
           [] @ [(pool_name (forward_pool expert0),
                  map (deserialize_torch_tensor example_ext) (tensors ?request))])"
    and s: "rpc_forward_stream example_ext example_experts ?requests []
        = (Inr (map (\<lambda>part. ExpertResponse [part])
             (concat (map (\<lambda>t. split_for_streaming t (DEFAULT_MAX_MSG_SIZE example_ext div 2)) outs))),
           [] @ [(pool_name (forward_pool expert0),
                  map (deserialize_torch_tensor example_ext) (tensors ?request))])"
    and c: "map (\<lambda>t. combine_from_streaming
              (split_for_streaming t (DEFAULT_MAX_MSG_SIZE example_ext div 2))) outs = map Some outs"
    by blast
  have e: "rpc_forward example_ext example_experts ?request []
     = (Inr (ExpertResponse [example_tensor [2, 4, 6]]), [(''expert0_forward'', [[1, 2, 3]])])"
    by (simp add: rpc_forward_def Let_def getitem_def process_inputs_def submit_task_def
        example_experts_def expert0_def example_ext_def example_tensor_def example_descr_def)
  from u e have outs: "outs = [example_tensor [2, 4, 6]]" by simp
  have k: "chunks 2 [6 :: byte] = [[6]]"
    by (simp add: chunks.simps [of 2 "[6]"] chunks.simps [of 2 "[]"])
  have sp: "split_for_streaming (example_tensor [2, 4, 6]) (DEFAULT_MAX_MSG_SIZE example_ext div 2)
     = [(example_tensor [2, 4, 6])\<lparr>payload := [2, 4]\<rparr>, continuation [6]]"
    by (simp add: split_for_streaming_def example_ext_def example_tensor_def k)
  have lg: "[] @ [(pool_name (forward_pool expert0),
        map (deserialize_torch_tensor example_ext) (tensors ?request))]
     = [(''expert0_forward'', [[1, 2, 3]])]"
    by (simp add: expert0_def example_ext_def example_tensor_def)
  from s have "rpc_forward_stream example_ext example_experts ?requests []
     = (Inr [ExpertResponse [(example_tensor [2, 4, 6])\<lparr>payload := [2, 4]\<rparr>],
           ExpertResponse [continuation [6]]],
      [(''expert0_forward'', [[1, 2, 3]])])"
    unfolding outs lg by (simp add: sp)
  moreover from c have "combine_from_streaming
      [(example_tensor [2, 4, 6])\<lparr>payload := [2, 4]\<rparr>, continuation [6]]
     = Some (example_tensor [2, 4, 6])"
    by (simp add: outs sp)
  ultimately show ?thesis using e by simp
qed

text \<open>
  C3, as the spec has it, does not ask for a frame: with no frame at all, every frame
  carries the uid and the tensor sequences concatenate to the empty input list, yet the
  unary call on the empty input list submits and answers, while the streamed call has
  gathered no uid and fails at the lookup.
\<close>

theorem forward_stream_zero_frames_counterexample:
  "example_experts ''expert0'' = Some expert0
   \<and> uid \<lparr>uid = ''expert0'', tensors = []\<rparr> = ''expert0''
   \<and> concat (map tensors ([] :: ExpertRequest list)) = tensors \<lparr>uid = ''expert0'', tensors = []\<rparr>
   \<and> rpc_forward example_ext example_experts \<lparr>uid = ''expert0'', tensors = []\<rparr> []
     = (Inr (ExpertResponse []), [(''expert0_forward'', [])])
   \<and> rpc_forward_stream example_ext example_experts [] [] = (Inl (KeyError None), [])"
  by (simp add: rpc_forward_def Let_def process_inputs_def submit_task_def
      rpc_forward_stream_def forward_output_split_def gather_inputs_Nil getitem_def
      example_experts_def expert0_def example_ext_def)

text \<open>
  C8, as the code has it. The response sequence of a streamed call is lazy, forward-only
  and not restartable: before the first \<^verbatim>\<open>__anext__\<close> nothing has run; the first
  \<^verbatim>\<open>__anext__\<close> gathers the inputs, makes the submission, serializes and splits every output,
  once, and either raises or yields the first part while the generator holds all the
  remaining parts; every later \<^verbatim>\<open>__anext__\<close> yields the next part of that list and changes
  nothing else; once the list is exhausted the generator is closed for good.
\<close>

theorem response_sequence_is_built_at_first_anext:
  "consume (rpc_forward_stream_anext ext experts) 0 (Created requests) log
     = ([], Created requests, log)
   \<and> consume (rpc_forward_stream_anext ext experts) (Suc n) (Created requests) log =
     (case forward_output_split ext experts requests log of
        (Inl e, log') \<Rightarrow> (Raise e # replicate n StopAsyncIteration, Closed, log')
      | (Inr output_split, log') \<Rightarrow>
          (map (\<lambda>part. Yield (ExpertResponse [part])) (take (Suc n) output_split)
             @ replicate (Suc n - length output_split) StopAsyncIteration,
           if Suc n \<le> length output_split then Suspended (drop (Suc n) output_split) else Closed,
           log'))"
  unfolding rpc_forward_stream_anext_def consume_Created by simp

theorem response_sequence_is_built_at_first_anext_witness:
  "consume (rpc_forward_stream_anext example_ext example_experts) 4
     (Created [\<lparr>uid = ''expert0'', tensors = [example_tensor [1, 2, 3, 4, 5]]\<rparr>]) []
   = ([Yield (ExpertResponse [(example_tensor [2, 4, 6, 8, 10])\<lparr>payload := [2, 4]\<rparr>]),
       Yield (ExpertResponse [continuation [6, 8]]),
       Yield (ExpertResponse [continuation [10]]),
       StopAsyncIteration],
      Closed, [(''expert0_forward'', [[1, 2, 3, 4, 5]])])"
proof -
  have c: "chunks 2 [6, 8, 10 :: byte] = [[6, 8], [10]]"
    by (simp add: chunks.simps [of 2 "[6, 8, 10]"] chunks.simps [of 2 "[10]"]
        chunks.simps [of 2 "[]"])
  have f: "forward_output_split example_ext example_experts
       [\<lparr>uid = ''expert0'', tensors = [example_tensor [1, 2, 3, 4, 5]]\<rparr>] []
     = (Inr [(example_tensor [2, 4, 6, 8, 10])\<lparr>payload := [2, 4]\<rparr>,
             continuation [6, 8], continuation [10]],
        [(''expert0_forward'', [[1, 2, 3, 4, 5]])])"
    by (simp add: forward_output_split_def gather_inputs_Cons getitem_def process_inputs_def
        submit_task_def split_for_streaming_def c
        example_experts_def expert0_def example_ext_def example_tensor_def example_descr_def)
  have n: "(4 :: nat) = Suc 3" by simp
  show ?thesis
    using response_sequence_is_built_at_first_anext [of example_ext example_experts
        "[\<lparr>uid = ''expert0'', tensors = [example_tensor [1, 2, 3, 4, 5]]\<rparr>]" "[]" 3]
    unfolding n f by (simp add: numeral_3_eq_3)
qed

text \<open>
  C8, as the spec has it, fails on the part "not all buffered first": when the first frame
  of a response of three fragments is emitted, the two other fragments are already held
  by the generator.
\<close>

theorem fragments_buffered_counterexample:
  "fst (rpc_forward_stream_anext example_ext example_experts
     (Created [\<lparr>uid = ''expert0'', tensors = [example_tensor [1, 2, 3, 4, 5]]\<rparr>]) [])
   = Yield (ExpertResponse [(example_tensor [2, 4, 6, 8, 10])\<lparr>payload := [2, 4]\<rparr>])
   \<and> pending (fst (snd (rpc_forward_stream_anext example_ext example_experts
     (Created [\<lparr>uid = ''expert0'', tensors = [example_tensor [1, 2, 3, 4, 5]]\<rparr>]) [])))
   = [continuation [6, 8], continuation [10]]"
proof -
  have c: "chunks 2 [6, 8, 10 :: byte] = [[6, 8], [10]]"
    by (simp add: chunks.simps [of 2 "[6, 8, 10]"] chunks.simps [of 2 "[10]"]
        chunks.simps [of 2 "[]"])
  show ?thesis
    by (simp add: rpc_forward_stream_anext_def stream_anext_def forward_output_split_def
        gather_inputs_Cons getitem_def process_inputs_def submit_task_def
        split_for_streaming_def c pending_def
        example_experts_def expert0_def example_ext_def example_tensor_def example_descr_def)
qed

text \<open>
  C1, evaluated where the code departs from it. \<open>run\<close> resolves the readiness future to
  success before the coroutine that joins the transport has started. When joining or
  registration raises, the run has then resolved the future twice: to success first, to
  the startup error second.
\<close>

theorem run_resolves_before_joining:
  "run \<lparr>replicate_p2p = Raises e, add_p2p_handlers = a, wait_forever = w\<rparr>
     = ([Ready_set_result, Call_replicate_p2p, Ready_set_exception e], Exits)
   \<and> filter resolves (fst (run \<lparr>replicate_p2p = Raises e, add_p2p_handlers = a, wait_forever = w\<rparr>))
     = [Ready_set_result, Ready_set_exception e]
   \<and> run \<lparr>replicate_p2p = Returns, add_p2p_handlers = Raises e, wait_forever = w\<rparr>
     = ([Ready_set_result, Call_replicate_p2p, Call_add_p2p_handlers, Ready_set_exception e], Exits)"
  by (simp add: run_def run_coroutine_def)

end
